theory Spec2Isabelle
  imports Main
begin

section \<open>Data model (src/src/index.tsx, lines 5-31)\<close>

text \<open>
  A query object \<^verbatim>\<open>{[key: string]: any}\<close> is kept as the list of its entries in the order
  the object enumerates them. The hook never looks inside it: it only tests whether the
  object is there and hands it to \<^verbatim>\<open>qs.stringify\<close>.
\<close>

type_synonym Query = "(string \<times> string) list"

record UrlObject =
  pathname :: string
  query :: "Query option"

text \<open>The first argument of \<^verbatim>\<open>useRoute\<close> has type \<^verbatim>\<open>UrlObject | string\<close>.\<close>

datatype UrlInput = UrlString string | UrlObj UrlObject

record RouteOptions =
  prefetch :: "bool option"
  replace :: "bool option"
  as :: "UrlObject option"

record RouterContextValue =
  currentRoute :: "string option"
  routePrefix :: "string option"

text \<open>
  The synthetic mouse event. The handler reads the three modifier flags and
  \<^verbatim>\<open>nativeEvent.which\<close>; \<^verbatim>\<open>button\<close> is the event's own button code (1 is the middle
  button), which the handler never reads.
\<close>

record NativeEvent =
  which :: int

record MouseEvent =
  metaKey :: bool
  ctrlKey :: bool
  shiftKey :: bool
  button :: int
  nativeEvent :: "NativeEvent option"

section \<open>Values, errors and effects\<close>

text \<open>
  \<^verbatim>\<open>a && b\<close> returns \<^verbatim>\<open>a\<close> itself when \<^verbatim>\<open>a\<close> is falsy, so \<^verbatim>\<open>isActive\<close> is not always a
  boolean: it can be \<^verbatim>\<open>undefined\<close> or the empty string.
\<close>

datatype jsvalue = JUndefined | JString string | JBool bool

fun truthy :: "jsvalue \<Rightarrow> bool" where
  "truthy JUndefined = False"
| "truthy (JString s) = (s \<noteq> [])"
| "truthy (JBool b) = b"

datatype error = Error string

datatype changeType = Push | Replace

text \<open>
  Every call the hook makes on its surroundings: the router (\<^verbatim>\<open>Router.prefetch\<close>,
  \<^verbatim>\<open>Router.push\<close>, \<^verbatim>\<open>Router.replace\<close>), the event (\<^verbatim>\<open>e.preventDefault\<close>), the window
  and the document. A run is the list of its calls in order.
\<close>

datatype effect =
    RouterPrefetch string
  | RouterChange changeType UrlObject UrlObject
  | PreventDefault
  | WindowScrollTo int int
  | DocumentBodyFocus

text \<open>How a promise settles: the router's answer to push or replace, and \<^verbatim>\<open>navigate\<close>'s own.\<close>

datatype 'a promise = Fulfilled 'a | Rejected

record RouteHandle =
  onClick :: "MouseEvent \<Rightarrow> bool promise \<Rightarrow> effect list"
  href :: string
  isActive :: jsvalue
  navigate :: "bool promise \<Rightarrow> effect list \<times> unit promise"

section \<open>String primitives\<close>

text \<open>\<^verbatim>\<open>s.startsWith(p)\<close>: the first \<open>length p\<close> characters of \<open>s\<close> are \<open>p\<close>.\<close>

definition startsWith :: "string \<Rightarrow> string \<Rightarrow> bool" where
  "startsWith s p = (take (length p) s = p)"

text \<open>\<^verbatim>\<open>s.indexOf(c)\<close> for a one-character needle: the first position, or -1.\<close>

fun indexOf :: "string \<Rightarrow> char \<Rightarrow> int" where
  "indexOf [] c = -1"
| "indexOf (x # xs) c =
     (if x = c then 0 else (let r = indexOf xs c in if r < 0 then -1 else r + 1))"

section \<open>The context carrier (lines 5, 33-44, 60-68)\<close>

text \<open>
  \<^verbatim>\<open>RouterProvider\<close> installs \<^verbatim>\<open>{currentRoute: props.route, routePrefix: props.routePrefix}\<close>.
  The context is created with the default \<^verbatim>\<open>null\<close> and is not exported, so the providers
  in scope of a component are \<^verbatim>\<open>RouterProvider\<close>s only: the scope is the list of their
  props, innermost first, and \<^verbatim>\<open>useContext\<close> reads the innermost or the default.
\<close>

definition RouterProvider :: "string option \<Rightarrow> string option \<Rightarrow> RouterContextValue" where
  "RouterProvider route_prop routePrefix_prop =
     \<lparr>currentRoute = route_prop, routePrefix = routePrefix_prop\<rparr>"

type_synonym scope = "(string option \<times> string option) list"

definition useContext :: "scope \<Rightarrow> RouterContextValue option" where
  "useContext sc = (case sc of [] \<Rightarrow> None | (r, p) # _ \<Rightarrow> Some (RouterProvider r p))"

definition useRouterContext :: "scope \<Rightarrow> error + RouterContextValue" where
  "useRouterContext sc =
     (case useContext sc of
        None \<Rightarrow> Inl (Error ''Missing RouteContext. Did you forget to use <RouteProvider>?'')
      | Some context \<Rightarrow> Inr context)"

section \<open>The route resolver (lines 46-49, 79-108)\<close>

text \<open>
  \<^verbatim>\<open>qs.stringify\<close> belongs to the package query-string, which is not part of this
  repository: it is the parameter \<open>stringify\<close>. An object is truthy even when it has no
  entries, so the test \<^verbatim>\<open>url.query ? ... : ''\<close> asks only whether the query is there.
\<close>

definition urlObjectToString :: "(Query \<Rightarrow> string) \<Rightarrow> UrlObject \<Rightarrow> string" where
  "urlObjectToString stringify url =
     pathname url @ (case query url of None \<Rightarrow> [] | Some q \<Rightarrow> ''?'' @ stringify q)"

definition parseRoute :: "UrlInput \<Rightarrow> UrlObject" where
  "parseRoute url = (case url of UrlString s \<Rightarrow> \<lparr>pathname = s, query = None\<rparr> | UrlObj u \<Rightarrow> u)"

record UrlObjects =
  route :: UrlObject
  "alias" :: UrlObject

text \<open>
  \<^verbatim>\<open>options.as || route\<close>: \<^verbatim>\<open>as\<close> is declared a \<^verbatim>\<open>UrlObject\<close>, which is truthy whenever it
  is given. \<^verbatim>\<open>prefix ? prefix + p : p\<close>: an absent prefix and the empty prefix are both
  falsy.
\<close>

definition getUrlObjects :: "UrlInput \<Rightarrow> RouteOptions \<Rightarrow> string option \<Rightarrow> UrlObjects" where
  "getUrlObjects url options prefix =
     (let route = parseRoute url;
          alias = (case as options of Some a \<Rightarrow> parseRoute (UrlObj a) | None \<Rightarrow> route)
      in \<lparr>route = \<lparr>pathname = pathname route, query = query route\<rparr>,
          alias = \<lparr>pathname =
                     (case prefix of
                        None \<Rightarrow> pathname alias
                      | Some p \<Rightarrow> if p \<noteq> [] then p @ pathname alias else pathname alias),
                   query = query route\<rparr>\<rparr>)"

section \<open>Prefetch, click handling and navigation (lines 51-58, 70-77, 110-141)\<close>

text \<open>
  \<^verbatim>\<open>useEffect(f, [href, shouldPrefetch])\<close> runs \<^verbatim>\<open>f\<close> after the first render and after
  every render whose dependencies differ from the previous render's; \<open>prev\<close> holds the
  previous render's dependencies, \<open>None\<close> on the first render.
\<close>

definition usePrefetch :: "(string \<times> bool) option \<Rightarrow> string \<Rightarrow> bool \<Rightarrow> effect list" where
  "usePrefetch prev href_arg shouldPrefetch =
     (if prev = Some (href_arg, shouldPrefetch) then []
      else if shouldPrefetch then [RouterPrefetch href_arg] else [])"

text \<open>The result is used as a condition only, so it is kept as its truth value.\<close>

definition wantsNewTab :: "MouseEvent \<Rightarrow> bool" where
  "wantsNewTab e =
     (metaKey e \<or> ctrlKey e \<or> shiftKey e \<or>
      (case nativeEvent e of None \<Rightarrow> False | Some n \<Rightarrow> which n = 2))"

text \<open>
  \<^verbatim>\<open>navigate\<close> and \<^verbatim>\<open>onClick\<close> are closures of \<^verbatim>\<open>useRoute\<close>; here they take what they capture
  as arguments. \<open>engine\<close> is how the promise of \<^verbatim>\<open>Router[changeType](route, alias)\<close>
  settles. \<^verbatim>\<open>onClick\<close> does not await \<^verbatim>\<open>navigate()\<close>: it returns normally whatever that
  promise does.
\<close>

definition navigate_impl ::
  "changeType \<Rightarrow> UrlObject \<Rightarrow> UrlObject \<Rightarrow> bool \<Rightarrow> bool promise \<Rightarrow> effect list \<times> unit promise" where
  "navigate_impl ct r a shouldScroll engine =
     (case engine of
        Rejected \<Rightarrow> ([RouterChange ct r a], Rejected)
      | Fulfilled success \<Rightarrow>
          (RouterChange ct r a #
             (if success \<and> shouldScroll then [WindowScrollTo 0 0, DocumentBodyFocus] else []),
           Fulfilled ()))"

definition onClick_impl ::
  "changeType \<Rightarrow> UrlObject \<Rightarrow> UrlObject \<Rightarrow> bool \<Rightarrow> MouseEvent \<Rightarrow> bool promise \<Rightarrow> effect list" where
  "onClick_impl ct r a shouldScroll e engine =
     (if wantsNewTab e then []
      else PreventDefault # fst (navigate_impl ct r a shouldScroll engine))"

text \<open>The default of the parameter \<^verbatim>\<open>options: RouteOptions = {}\<close>.\<close>

definition withDefault :: "RouteOptions option \<Rightarrow> RouteOptions" where
  "withDefault options_arg =
     (case options_arg of
        None \<Rightarrow> \<lparr>prefetch = None, replace = None, as = None\<rparr>
      | Some opts \<Rightarrow> opts)"

text \<open>
  \<^verbatim>\<open>useRoute(url, options = {})\<close>. The result is the thrown error, or the returned handle
  together with the calls of the prefetch effect of this render.
\<close>

definition useRoute ::
  "(Query \<Rightarrow> string) \<Rightarrow> scope \<Rightarrow> (string \<times> bool) option \<Rightarrow> UrlInput \<Rightarrow> RouteOptions option
     \<Rightarrow> error + (RouteHandle \<times> effect list)" where
  "useRoute stringify sc prev url options_arg =
     (let options = withDefault options_arg
      in case useRouterContext sc of
           Inl err \<Rightarrow> Inl err
         | Inr context \<Rightarrow>
             (let urls = getUrlObjects url options (routePrefix context);
                  r = route urls;
                  a = alias urls;
                  href_str = urlObjectToString stringify r;
                  aliasHref = urlObjectToString stringify a;
                  shouldScroll = (indexOf (pathname r) (CHR ''#'') < 0);
                  active = (case currentRoute context of
                              None \<Rightarrow> JUndefined
                            | Some c \<Rightarrow> if c = [] then JString c
                                        else JBool (startsWith c (pathname r)));
                  ct = (if replace options = Some True then Replace else Push)
              in Inr (\<lparr>onClick = onClick_impl ct r a shouldScroll,
                        href = aliasHref,
                        isActive = active,
                        navigate = navigate_impl ct r a shouldScroll\<rparr>,
                      usePrefetch prev href_str (prefetch options = Some True))))"

section \<open>Auxiliary definitions for the statements\<close>

text \<open>
  An encoder to put in place of the parameter \<open>stringify\<close> when a statement is evaluated
  at a concrete input: \<^verbatim>\<open>key=value\<close> pairs joined by \<^verbatim>\<open>&\<close>, the empty string for an
  object with no entries. It stands for no particular package; every general statement
  below holds for all encoders.
\<close>

fun plainStringify :: "Query \<Rightarrow> string" where
  "plainStringify [] = []"
| "plainStringify [(k, v)] = k @ ''='' @ v"
| "plainStringify ((k, v) # kv # rest) = k @ ''='' @ v @ ''&'' @ plainStringify (kv # rest)"

text \<open>
  The active state in the specification's words:
  \<^verbatim>\<open>currentRoute !== undefined && currentRoute.startsWith(route.pathname)\<close>, a boolean.
\<close>

definition isActive_spec :: "string option \<Rightarrow> string \<Rightarrow> bool" where
  "isActive_spec current p = (case current of None \<Rightarrow> False | Some c \<Rightarrow> startsWith c p)"

text \<open>The calls of a run that ask the router to push or replace.\<close>

fun isRouterChange :: "effect \<Rightarrow> bool" where
  "isRouterChange (RouterChange ct r a) = True"
| "isRouterChange _ = False"

section \<open>Helper facts\<close>

lemma indexOf_ge: "- 1 \<le> indexOf s c"
  by (induction s) (auto simp: Let_def)

lemma indexOf_absent: "(indexOf s c < 0) = (c \<notin> set s)"
proof (induction s)
  case Nil
  show ?case by simp
next
  case (Cons x xs)
  have "- 1 \<le> indexOf xs c" by (rule indexOf_ge)
  with Cons show ?case by (auto simp: Let_def)
qed

lemma UrlObject_copy: "\<lparr>pathname = pathname u, query = query u\<rparr> = (u::UrlObject)"
  by simp

lemma getUrlObjects_route: "route (getUrlObjects url options prefix) = parseRoute url"
  by (simp add: getUrlObjects_def Let_def)

lemma useRouterContext_cases:
  "useRouterContext sc =
     (case sc of
        [] \<Rightarrow> Inl (Error ''Missing RouteContext. Did you forget to use <RouteProvider>?'')
      | (r, p) # _ \<Rightarrow> Inr (RouterProvider r p))"
  by (simp add: useRouterContext_def useContext_def split: list.splits)

text \<open>With a context in scope, \<^verbatim>\<open>useRoute\<close> returns this handle and schedules this effect.\<close>

lemma useRoute_installed:
  "useRouterContext sc = Inr ctx \<Longrightarrow>
   useRoute stringify sc prev url oa =
     Inr (\<lparr>onClick =
             onClick_impl (if replace (withDefault oa) = Some True then Replace else Push)
               (route (getUrlObjects url (withDefault oa) (routePrefix ctx)))
               (alias (getUrlObjects url (withDefault oa) (routePrefix ctx)))
               (CHR ''#'' \<notin> set (pathname (parseRoute url))),
           href = urlObjectToString stringify
                    (alias (getUrlObjects url (withDefault oa) (routePrefix ctx))),
           isActive =
             (case currentRoute ctx of
                None \<Rightarrow> JUndefined
              | Some c \<Rightarrow> if c = [] then JString []
                          else JBool (startsWith c (pathname (parseRoute url)))),
           navigate =
             navigate_impl (if replace (withDefault oa) = Some True then Replace else Push)
               (route (getUrlObjects url (withDefault oa) (routePrefix ctx)))
               (alias (getUrlObjects url (withDefault oa) (routePrefix ctx)))
               (CHR ''#'' \<notin> set (pathname (parseRoute url)))\<rparr>,
          usePrefetch prev (urlObjectToString stringify (parseRoute url))
            (prefetch (withDefault oa) = Some True))"
  by (simp add: useRoute_def Let_def indexOf_absent getUrlObjects_route split: option.splits)

lemma useRoute_missing:
  "useRouterContext sc = Inl err \<Longrightarrow> useRoute stringify sc prev url oa = Inl err"
  by (simp add: useRoute_def Let_def)

section \<open>Alias composition\<close>

text \<open>
  C1. For every url (string or object), every options and every prefix, the alias
  pathname is the prefix (the empty string when there is none) followed by the pathname
  of \<^verbatim>\<open>options.as\<close> when it is given and by the route's pathname otherwise; the alias query
  is the route's query, which is the query of the input url and never that of \<^verbatim>\<open>as\<close>; the
  route's pathname is the input's, unprefixed.
\<close>

theorem getUrlObjects_alias:
  "pathname (alias (getUrlObjects url options prefix)) =
     (case prefix of None \<Rightarrow> [] | Some p \<Rightarrow> p) @
     (case as options of Some a \<Rightarrow> pathname a | None \<Rightarrow> pathname (route (getUrlObjects url options prefix)))
   \<and> query (alias (getUrlObjects url options prefix)) = query (route (getUrlObjects url options prefix))
   \<and> query (route (getUrlObjects url options prefix)) = query (parseRoute url)
   \<and> pathname (route (getUrlObjects url options prefix)) = pathname (parseRoute url)"
  by (simp add: getUrlObjects_def parseRoute_def Let_def split: option.splits)

text \<open>
  C8, as stated, fails: with the prefix \<^verbatim>\<open>""\<close> and \<^verbatim>\<open>as: {pathname: '/p'}\<close> the alias
  pathname is \<^verbatim>\<open>/p\<close> while the route pathname is \<^verbatim>\<open>/projects\<close>.
\<close>

theorem empty_prefix_counterexample:
  "pathname (alias (getUrlObjects (UrlString ''/projects'')
       \<lparr>prefetch = None, replace = None, as = Some \<lparr>pathname = ''/p'', query = None\<rparr>\<rparr> (Some ''''))) = ''/p''
   \<and> pathname (route (getUrlObjects (UrlString ''/projects'')
       \<lparr>prefetch = None, replace = None, as = Some \<lparr>pathname = ''/p'', query = None\<rparr>\<rparr> (Some ''''))) = ''/projects''"
  by (simp add: getUrlObjects_def parseRoute_def Let_def)

text \<open>
  C8 (amended). With the prefix \<^verbatim>\<open>""\<close> nothing is prepended: the alias pathname is the
  route's pathname when \<^verbatim>\<open>options.as\<close> is omitted, and the pathname of \<^verbatim>\<open>as\<close> when it is
  given.
\<close>

theorem empty_prefix_noop:
  "pathname (alias (getUrlObjects url options (Some ''''))) =
     (case as options of
        None \<Rightarrow> pathname (route (getUrlObjects url options (Some '''')))
      | Some a \<Rightarrow> pathname a)"
  by (simp add: getUrlObjects_def parseRoute_def Let_def split: option.splits)

section \<open>The href string\<close>

text \<open>
  C3, as stated, fails for a query that is present and has no entries: the object is
  truthy, so the \<^verbatim>\<open>?\<close> is appended and the href is not the bare pathname.
\<close>

theorem urlObjectToString_empty_query_counterexample:
  "urlObjectToString plainStringify \<lparr>pathname = ''/projects'', query = Some []\<rparr> = ''/projects?''"
  by (simp add: urlObjectToString_def)

text \<open>
  C3 (amended). The href is the pathname followed by \<^verbatim>\<open>?\<close> and the encoding of the query
  exactly when the query is present, whether or not it has entries: a present query with
  no entries still gets the \<^verbatim>\<open>?\<close>, followed by whatever the encoder makes of the empty
  object. When the query is absent the href is exactly the pathname.
\<close>

theorem urlObjectToString_href:
  "(query url = None \<longrightarrow> urlObjectToString stringify url = pathname url)
   \<and> (\<forall>q. query url = Some q \<longrightarrow>
          urlObjectToString stringify url = pathname url @ ''?'' @ stringify q)"
  by (simp add: urlObjectToString_def)

theorem urlObjectToString_href_witness:
  "urlObjectToString plainStringify \<lparr>pathname = ''/settings'', query = None\<rparr> = ''/settings''
   \<and> urlObjectToString plainStringify
        \<lparr>pathname = ''/project/details'', query = Some [(''id'', ''42'')]\<rparr> = ''/project/details?id=42''
   \<and> urlObjectToString plainStringify \<lparr>pathname = ''/settings'', query = Some []\<rparr> = ''/settings?''"
  using urlObjectToString_href [of "\<lparr>pathname = ''/settings'', query = None\<rparr>" plainStringify]
    urlObjectToString_href [of "\<lparr>pathname = ''/project/details'', query = Some [(''id'', ''42'')]\<rparr>" plainStringify]
    urlObjectToString_href [of "\<lparr>pathname = ''/settings'', query = Some []\<rparr>" plainStringify]
  by simp

section \<open>Prefetch\<close>

text \<open>
  C2, as stated, fails: under the prefix \<^verbatim>\<open>/dashboard\<close> the handle's href is
  \<^verbatim>\<open>/dashboard/projects\<close>, and the router is asked to prefetch \<^verbatim>\<open>/projects\<close>.
\<close>

theorem prefetch_alias_href_counterexample:
  "snd (projr (useRoute plainStringify [(None, Some ''/dashboard'')] None (UrlString ''/projects'')
          (Some \<lparr>prefetch = Some True, replace = None, as = None\<rparr>))) = [RouterPrefetch ''/projects'']
   \<and> href (fst (projr (useRoute plainStringify [(None, Some ''/dashboard'')] None (UrlString ''/projects'')
          (Some \<lparr>prefetch = Some True, replace = None, as = None\<rparr>)))) = ''/dashboard/projects''"
  by (simp add: useRoute_installed [OF useRouterContext_cases [of "[(None, Some ''/dashboard'')]", simplified]]
      usePrefetch_def urlObjectToString_def parseRoute_def getUrlObjects_def withDefault_def RouterProvider_def Let_def)

text \<open>
  C2 (amended). When the prefetch effect runs (first render, or the pair of the route's
  string and the flag differs from the previous render's) and \<^verbatim>\<open>options.prefetch\<close> is
  \<^verbatim>\<open>true\<close>, the router's prefetch is called once, with the string form of the canonical,
  unprefixed route; the handle's href is the string form of the alias. When
  \<^verbatim>\<open>options.prefetch\<close> is not \<^verbatim>\<open>true\<close> no prefetch call is made.
\<close>

theorem prefetch_route_href:
  assumes "useRouterContext sc = Inr ctx"
    and "useRoute stringify sc prev url oa = Inr (h, fx)"
  shows "fx = (if prefetch (withDefault oa) = Some True
                  \<and> prev \<noteq> Some (urlObjectToString stringify
                                    (route (getUrlObjects url (withDefault oa) (routePrefix ctx))), True)
               then [RouterPrefetch (urlObjectToString stringify
                                    (route (getUrlObjects url (withDefault oa) (routePrefix ctx))))]
               else [])
         \<and> href h = urlObjectToString stringify
                      (alias (getUrlObjects url (withDefault oa) (routePrefix ctx)))"
  using assms(2) unfolding useRoute_installed [OF assms(1)]
  by (auto simp: usePrefetch_def getUrlObjects_route)

theorem prefetch_route_href_witness:
  "snd (projr (useRoute plainStringify [(None, Some ''/dashboard'')] None
          (UrlObj \<lparr>pathname = ''/project/details'', query = Some [(''id'', ''42'')]\<rparr>)
          (Some \<lparr>prefetch = Some True, replace = None, as = None\<rparr>)))
     = [RouterPrefetch ''/project/details?id=42'']
   \<and> href (fst (projr (useRoute plainStringify [(None, Some ''/dashboard'')] None
          (UrlObj \<lparr>pathname = ''/project/details'', query = Some [(''id'', ''42'')]\<rparr>)
          (Some \<lparr>prefetch = Some True, replace = None, as = None\<rparr>))))
     = ''/dashboard/project/details?id=42''
   \<and> snd (projr (useRoute plainStringify [(None, Some ''/dashboard'')] None
          (UrlObj \<lparr>pathname = ''/project/details'', query = Some [(''id'', ''42'')]\<rparr>) None)) = []"
proof -
  let ?sc = "[(None, Some ''/dashboard'')]"
  let ?url = "UrlObj \<lparr>pathname = ''/project/details'', query = Some [(''id'', ''42'')]\<rparr>"
  let ?oa = "Some \<lparr>prefetch = Some True, replace = None, as = None\<rparr>"
  have ctx: "useRouterContext ?sc = Inr (RouterProvider None (Some ''/dashboard''))"
    by (simp add: useRouterContext_cases)
  have r1: "useRoute plainStringify ?sc None ?url ?oa =
      Inr (fst (projr (useRoute plainStringify ?sc None ?url ?oa)),
           snd (projr (useRoute plainStringify ?sc None ?url ?oa)))"
    by (simp add: useRoute_installed [OF ctx])
  have r2: "useRoute plainStringify ?sc None ?url None =
      Inr (fst (projr (useRoute plainStringify ?sc None ?url None)),
           snd (projr (useRoute plainStringify ?sc None ?url None)))"
    by (simp add: useRoute_installed [OF ctx])
  show ?thesis
    using prefetch_route_href [OF ctx r1] prefetch_route_href [OF ctx r2]
    by (simp add: urlObjectToString_def parseRoute_def getUrlObjects_def withDefault_def
        RouterProvider_def Let_def)
qed

section \<open>Active state\<close>

text \<open>
  C5, as stated, fails. With no current route the returned \<^verbatim>\<open>isActive\<close> is \<^verbatim>\<open>undefined\<close>,
  not the boolean \<^verbatim>\<open>false\<close>; with the current route \<^verbatim>\<open>""\<close> and the pathname \<^verbatim>\<open>""\<close> it is
  the empty string, which is falsy, where the stated condition is true.
\<close>

theorem isActive_counterexample:
  "isActive (fst (projr (useRoute plainStringify [(None, None)] None (UrlString ''/projects'') None)))
     \<noteq> JBool (isActive_spec None ''/projects'')
   \<and> truthy (isActive (fst (projr (useRoute plainStringify [(Some '''', None)] None (UrlString '''') None))))
     \<noteq> isActive_spec (Some '''') ''''"
  by (simp add: useRoute_installed [OF useRouterContext_cases [of "[(None, None)]", simplified]]
      useRoute_installed [OF useRouterContext_cases [of "[(Some [], None)]", simplified]]
      RouterProvider_def isActive_spec_def startsWith_def)

text \<open>
  C5 (amended). \<^verbatim>\<open>isActive\<close> is truthy exactly when the current route is defined, is not
  the empty string, and starts with the canonical route's pathname. Its value is
  \<^verbatim>\<open>undefined\<close> when the current route is undefined, the empty string when the current
  route is empty, and otherwise the boolean \<^verbatim>\<open>currentRoute.startsWith(route.pathname)\<close>.
  The pathname compared is the input's own, whatever the prefix and \<^verbatim>\<open>as\<close> are.
\<close>

theorem isActive_value:
  assumes "useRouterContext sc = Inr ctx"
    and "useRoute stringify sc prev url oa = Inr (h, fx)"
  shows "truthy (isActive h) =
           (\<exists>c. currentRoute ctx = Some c \<and> c \<noteq> [] \<and>
                startsWith c (pathname (route (getUrlObjects url (withDefault oa) (routePrefix ctx)))))
         \<and> isActive h =
           (case currentRoute ctx of
              None \<Rightarrow> JUndefined
            | Some c \<Rightarrow> if c = [] then JString []
                        else JBool (startsWith c (pathname (route (getUrlObjects url (withDefault oa) (routePrefix ctx))))))
         \<and> pathname (route (getUrlObjects url (withDefault oa) (routePrefix ctx))) = pathname (parseRoute url)"
  using assms(2) unfolding useRoute_installed [OF assms(1)]
  by (auto simp: getUrlObjects_route split: option.splits)

theorem isActive_value_witness:
  "truthy (isActive (fst (projr (useRoute plainStringify [(Some ''/projects/42'', Some ''/dashboard'')] None
      (UrlString ''/projects'') None))))
   \<and> isActive (fst (projr (useRoute plainStringify [(Some ''/projects/42'', Some ''/dashboard'')] None
      (UrlString ''/projects'') None))) = JBool True
   \<and> isActive (fst (projr (useRoute plainStringify [(Some ''/settings'', Some ''/dashboard'')] None
      (UrlString ''/projects'') None))) = JBool False"
proof -
  let ?sc = "[(Some ''/projects/42'', Some ''/dashboard'')]"
  let ?sc2 = "[(Some ''/settings'', Some ''/dashboard'')]"
  let ?url = "UrlString ''/projects''"
  have ctx: "useRouterContext ?sc = Inr (RouterProvider (Some ''/projects/42'') (Some ''/dashboard''))"
    by (simp add: useRouterContext_cases)
  have ctx2: "useRouterContext ?sc2 = Inr (RouterProvider (Some ''/settings'') (Some ''/dashboard''))"
    by (simp add: useRouterContext_cases)
  have r1: "useRoute plainStringify ?sc None ?url None =
      Inr (fst (projr (useRoute plainStringify ?sc None ?url None)),
           snd (projr (useRoute plainStringify ?sc None ?url None)))"
    by (simp add: useRoute_installed [OF ctx])
  have r2: "useRoute plainStringify ?sc2 None ?url None =
      Inr (fst (projr (useRoute plainStringify ?sc2 None ?url None)),
           snd (projr (useRoute plainStringify ?sc2 None ?url None)))"
    by (simp add: useRoute_installed [OF ctx2])
  show ?thesis
    using isActive_value [OF ctx r1] isActive_value [OF ctx2 r2]
    by (simp add: parseRoute_def getUrlObjects_def withDefault_def startsWith_def
        RouterProvider_def Let_def)
qed

section \<open>Click handling and navigation\<close>

text \<open>
  C6, as stated, fails when the middle button is read from the event itself: a click
  with \<^verbatim>\<open>button = 1\<close>, no modifier key and no \<^verbatim>\<open>nativeEvent\<close> is not recognised, so
  \<^verbatim>\<open>onClick\<close> calls \<^verbatim>\<open>preventDefault\<close> and navigates.
\<close>

theorem onClick_middle_button_counterexample:
  "button \<lparr>metaKey = False, ctrlKey = False, shiftKey = False, button = 1, nativeEvent = None\<rparr> = 1
   \<and> onClick (fst (projr (useRoute plainStringify [(Some ''/settings'', None)] None
                            (UrlString ''/settings'') None)))
     \<lparr>metaKey = False, ctrlKey = False, shiftKey = False, button = 1, nativeEvent = None\<rparr>
     (Fulfilled True) =
       [PreventDefault,
        RouterChange Push \<lparr>pathname = ''/settings'', query = None\<rparr>
          \<lparr>pathname = ''/settings'', query = None\<rparr>,
        WindowScrollTo 0 0, DocumentBodyFocus]"
  by (simp add: useRoute_installed [OF useRouterContext_cases [of "[(Some ''/settings'', None)]", simplified]]
      onClick_impl_def wantsNewTab_def navigate_impl_def parseRoute_def getUrlObjects_def
      withDefault_def RouterProvider_def Let_def)

text \<open>
  C6 (amended). If the meta, ctrl or shift key is held, or the event's \<^verbatim>\<open>nativeEvent\<close> is
  present and reports \<^verbatim>\<open>which = 2\<close> (the only way the handler sees a middle click),
  \<^verbatim>\<open>onClick\<close> returns having called nothing: no \<^verbatim>\<open>preventDefault\<close>, no navigation. For
  every other click, a middle click without \<^verbatim>\<open>nativeEvent\<close> included, it calls
  \<^verbatim>\<open>preventDefault\<close> once and then runs \<^verbatim>\<open>navigate\<close> once: one router call.
\<close>

theorem onClick_new_tab:
  assumes "useRoute stringify sc prev url oa = Inr (h, fx)"
  shows "(metaKey e \<or> ctrlKey e \<or> shiftKey e \<or> (\<exists>n. nativeEvent e = Some n \<and> which n = 2)
            \<longrightarrow> onClick h e engine = [])
         \<and> (\<not> (metaKey e \<or> ctrlKey e \<or> shiftKey e \<or> (\<exists>n. nativeEvent e = Some n \<and> which n = 2))
            \<longrightarrow> onClick h e engine = PreventDefault # fst (navigate h engine)
                \<and> count_list (onClick h e engine) PreventDefault = 1
                \<and> length (filter isRouterChange (onClick h e engine)) = 1)"
proof -
  obtain ctx where ctx: "useRouterContext sc = Inr ctx"
    using assms by (cases "useRouterContext sc") (auto simp: useRoute_missing)
  have w: "wantsNewTab e =
      (metaKey e \<or> ctrlKey e \<or> shiftKey e \<or> (\<exists>n. nativeEvent e = Some n \<and> which n = 2))"
    by (auto simp: wantsNewTab_def split: option.splits)
  show ?thesis
    using assms unfolding useRoute_installed [OF ctx] w [symmetric]
    by (cases engine) (auto simp: onClick_impl_def navigate_impl_def)
qed

theorem onClick_new_tab_witness:
  "onClick (fst (projr (useRoute plainStringify [(None, Some ''/dashboard'')] None (UrlString ''/projects'') None)))
     \<lparr>metaKey = False, ctrlKey = True, shiftKey = False, button = 0, nativeEvent = Some \<lparr>which = 1\<rparr>\<rparr>
     (Fulfilled True) = []
   \<and> onClick (fst (projr (useRoute plainStringify [(None, Some ''/dashboard'')] None (UrlString ''/projects'') None)))
     \<lparr>metaKey = False, ctrlKey = False, shiftKey = False, button = 1, nativeEvent = Some \<lparr>which = 2\<rparr>\<rparr>
     (Fulfilled True) = []
   \<and> onClick (fst (projr (useRoute plainStringify [(None, Some ''/dashboard'')] None (UrlString ''/projects'') None)))
     \<lparr>metaKey = False, ctrlKey = False, shiftKey = False, button = 0, nativeEvent = Some \<lparr>which = 1\<rparr>\<rparr>
     (Fulfilled True) =
       [PreventDefault,
        RouterChange Push \<lparr>pathname = ''/projects'', query = None\<rparr>
          \<lparr>pathname = ''/dashboard/projects'', query = None\<rparr>,
        WindowScrollTo 0 0, DocumentBodyFocus]"
proof -
  let ?sc = "[(None, Some ''/dashboard'')]"
  let ?url = "UrlString ''/projects''"
  have ctx: "useRouterContext ?sc = Inr (RouterProvider None (Some ''/dashboard''))"
    by (simp add: useRouterContext_cases)
  have r: "useRoute plainStringify ?sc None ?url None =
      Inr (fst (projr (useRoute plainStringify ?sc None ?url None)),
           snd (projr (useRoute plainStringify ?sc None ?url None)))"
    by (simp add: useRoute_installed [OF ctx])
  have n: "fst (navigate (fst (projr (useRoute plainStringify ?sc None ?url None))) (Fulfilled True)) =
       [RouterChange Push \<lparr>pathname = ''/projects'', query = None\<rparr>
          \<lparr>pathname = ''/dashboard/projects'', query = None\<rparr>,
        WindowScrollTo 0 0, DocumentBodyFocus]"
    by (simp add: useRoute_installed [OF ctx] navigate_impl_def parseRoute_def getUrlObjects_def
        withDefault_def RouterProvider_def Let_def)
  show ?thesis
    using
      onClick_new_tab [OF r, of "\<lparr>metaKey = False, ctrlKey = True, shiftKey = False, button = 0, nativeEvent = Some \<lparr>which = 1\<rparr>\<rparr>" "Fulfilled True"]
      onClick_new_tab [OF r, of "\<lparr>metaKey = False, ctrlKey = False, shiftKey = False, button = 1, nativeEvent = Some \<lparr>which = 2\<rparr>\<rparr>" "Fulfilled True"]
      onClick_new_tab [OF r, of "\<lparr>metaKey = False, ctrlKey = False, shiftKey = False, button = 0, nativeEvent = Some \<lparr>which = 1\<rparr>\<rparr>" "Fulfilled True"]
    by (simp add: n)
qed

text \<open>
  C7. \<^verbatim>\<open>navigate\<close> scrolls to the top and focuses the body exactly when the router
  reports success and the canonical route's pathname has no \<^verbatim>\<open>#\<close>. When the router reports
  failure the run is the one router call and nothing else, and \<^verbatim>\<open>navigate\<close> returns
  normally. The router is called once however it answers.
\<close>

theorem navigate_side_effects:
  assumes "useRouterContext sc = Inr ctx"
    and "useRoute stringify sc prev url oa = Inr (h, fx)"
  shows "(WindowScrollTo 0 0 \<in> set (fst (navigate h engine))) =
           (engine = Fulfilled True \<and>
            CHR ''#'' \<notin> set (pathname (route (getUrlObjects url (withDefault oa) (routePrefix ctx)))))
         \<and> (DocumentBodyFocus \<in> set (fst (navigate h engine))) =
           (engine = Fulfilled True \<and>
            CHR ''#'' \<notin> set (pathname (route (getUrlObjects url (withDefault oa) (routePrefix ctx)))))
         \<and> navigate h (Fulfilled False) =
             ([RouterChange (if replace (withDefault oa) = Some True then Replace else Push)
                 (route (getUrlObjects url (withDefault oa) (routePrefix ctx)))
                 (alias (getUrlObjects url (withDefault oa) (routePrefix ctx)))],
              Fulfilled ())
         \<and> snd (navigate h (Fulfilled True)) = Fulfilled ()
         \<and> length (filter isRouterChange (fst (navigate h engine))) = 1"
  using assms(2) unfolding useRoute_installed [OF assms(1)]
  by (cases engine) (auto simp: navigate_impl_def getUrlObjects_route)

theorem navigate_side_effects_witness:
  "navigate (fst (projr (useRoute plainStringify [(None, Some ''/dashboard'')] None (UrlString ''/projects'') None)))
     (Fulfilled False) =
     ([RouterChange Push \<lparr>pathname = ''/projects'', query = None\<rparr>
          \<lparr>pathname = ''/dashboard/projects'', query = None\<rparr>], Fulfilled ())
   \<and> WindowScrollTo 0 0 \<in> set (fst (navigate
       (fst (projr (useRoute plainStringify [(None, Some ''/dashboard'')] None (UrlString ''/projects'') None)))
       (Fulfilled True)))
   \<and> DocumentBodyFocus \<in> set (fst (navigate
       (fst (projr (useRoute plainStringify [(None, Some ''/dashboard'')] None (UrlString ''/projects'') None)))
       (Fulfilled True)))
   \<and> WindowScrollTo 0 0 \<notin> set (fst (navigate
       (fst (projr (useRoute plainStringify [(None, Some ''/dashboard'')] None (UrlString ''/docs#install'') None)))
       (Fulfilled True)))"
proof -
  let ?sc = "[(None, Some ''/dashboard'')]"
  let ?url = "UrlString ''/projects''"
  let ?url2 = "UrlString ''/docs#install''"
  have ctx: "useRouterContext ?sc = Inr (RouterProvider None (Some ''/dashboard''))"
    by (simp add: useRouterContext_cases)
  have r: "useRoute plainStringify ?sc None ?url None =
      Inr (fst (projr (useRoute plainStringify ?sc None ?url None)),
           snd (projr (useRoute plainStringify ?sc None ?url None)))"
    by (simp add: useRoute_installed [OF ctx])
  have r2: "useRoute plainStringify ?sc None ?url2 None =
      Inr (fst (projr (useRoute plainStringify ?sc None ?url2 None)),
           snd (projr (useRoute plainStringify ?sc None ?url2 None)))"
    by (simp add: useRoute_installed [OF ctx])
  show ?thesis
    using navigate_side_effects [OF ctx r, of "Fulfilled True"]
      navigate_side_effects [OF ctx r2, of "Fulfilled True"]
    by (simp add: parseRoute_def getUrlObjects_def withDefault_def RouterProvider_def Let_def)
qed

text \<open>
  C10. A click whose \<^verbatim>\<open>nativeEvent\<close> is absent and that holds no modifier key is handled
  as a normal click (\<^verbatim>\<open>preventDefault\<close>, then \<^verbatim>\<open>navigate\<close>), whatever its button is. With
  no modifier key held, \<^verbatim>\<open>onClick\<close> does nothing exactly when \<^verbatim>\<open>nativeEvent\<close> is present
  with \<^verbatim>\<open>which = 2\<close>.
\<close>

theorem onClick_without_nativeEvent:
  assumes "useRoute stringify sc prev url oa = Inr (h, fx)"
  shows "(nativeEvent e = None \<and> \<not> metaKey e \<and> \<not> ctrlKey e \<and> \<not> shiftKey e
            \<longrightarrow> onClick h e engine = PreventDefault # fst (navigate h engine))
         \<and> (\<not> metaKey e \<and> \<not> ctrlKey e \<and> \<not> shiftKey e
            \<longrightarrow> (onClick h e engine = []) = (\<exists>n. nativeEvent e = Some n \<and> which n = 2))"
proof -
  obtain ctx where ctx: "useRouterContext sc = Inr ctx"
    using assms by (cases "useRouterContext sc") (auto simp: useRoute_missing)
  show ?thesis
    using assms unfolding useRoute_installed [OF ctx]
    by (auto simp: onClick_impl_def wantsNewTab_def split: option.splits if_splits)
qed

theorem onClick_without_nativeEvent_witness:
  "onClick (fst (projr (useRoute plainStringify [(None, None)] None (UrlString ''/projects'') None)))
     \<lparr>metaKey = False, ctrlKey = False, shiftKey = False, button = 1, nativeEvent = None\<rparr>
     (Fulfilled False) =
       [PreventDefault,
        RouterChange Push \<lparr>pathname = ''/projects'', query = None\<rparr>
          \<lparr>pathname = ''/projects'', query = None\<rparr>]
   \<and> onClick (fst (projr (useRoute plainStringify [(None, None)] None (UrlString ''/projects'') None)))
     \<lparr>metaKey = False, ctrlKey = False, shiftKey = False, button = 1, nativeEvent = Some \<lparr>which = 2\<rparr>\<rparr>
     (Fulfilled False) = []"
proof -
  let ?sc = "[(None, None)]"
  let ?url = "UrlString ''/projects''"
  have ctx: "useRouterContext ?sc = Inr (RouterProvider None None)"
    by (simp add: useRouterContext_cases)
  have r: "useRoute plainStringify ?sc None ?url None =
      Inr (fst (projr (useRoute plainStringify ?sc None ?url None)),
           snd (projr (useRoute plainStringify ?sc None ?url None)))"
    by (simp add: useRoute_installed [OF ctx])
  have n: "fst (navigate (fst (projr (useRoute plainStringify ?sc None ?url None))) (Fulfilled False)) =
       [RouterChange Push \<lparr>pathname = ''/projects'', query = None\<rparr>
          \<lparr>pathname = ''/projects'', query = None\<rparr>]"
    by (simp add: useRoute_installed [OF ctx] navigate_impl_def parseRoute_def getUrlObjects_def
        withDefault_def RouterProvider_def Let_def)
  show ?thesis
    using
      onClick_without_nativeEvent [OF r, of "\<lparr>metaKey = False, ctrlKey = False, shiftKey = False, button = 1, nativeEvent = None\<rparr>" "Fulfilled False"]
      onClick_without_nativeEvent [OF r, of "\<lparr>metaKey = False, ctrlKey = False, shiftKey = False, button = 1, nativeEvent = Some \<lparr>which = 2\<rparr>\<rparr>" "Fulfilled False"]
    by (simp add: n)
qed

section \<open>Missing context\<close>

text \<open>
  C9. \<^verbatim>\<open>useRouterContext\<close> throws exactly when no provider is in scope, and so does
  \<^verbatim>\<open>useRoute\<close>, which returns no handle then; the error is the missing-context error.
\<close>

theorem missing_context_iff:
  "isl (useRouterContext sc) = (sc = [])
   \<and> isl (useRoute stringify sc prev url oa) = (sc = [])
   \<and> useRoute stringify [] prev url oa =
       Inl (Error ''Missing RouteContext. Did you forget to use <RouteProvider>?'')"
  by (cases sc) (auto simp: useRouterContext_cases useRoute_installed useRoute_missing)

end
